theory Spec2Isabelle
  imports Complex_Main "HOL-Library.Char_ord" "HOL-Library.List_Lexorder" "HOL-Library.Multiset"
    "HOL-Library.Log_Nat"
begin

section \<open>Numbers\<close>

text \<open>
  A JavaScript number is an IEEE 754 double. \<open>Finite r\<close> is the double whose value is
  the rational \<open>r\<close>; the two zeros are one value, as they are for \<^verbatim>\<open>===\<close>. The sum
  of two finite doubles is their exact sum rounded to the nearest double, ties to the
  even significand: 53 bits of significand, the smallest exponent -1022 (below it the
  spacing of the doubles stays at the power -1074 of two), and infinity from the power
  1024 of two on.
\<close>

datatype number = Finite rat | PosInfinity | NegInfinity | NaN

definition pow2 :: "int \<Rightarrow> rat" where
  "pow2 e = (if 0 \<le> e then 2 ^ nat e else 1 / 2 ^ nat (- e))"

text \<open>The exponent \<open>e\<close> of a positive rational: the power \<open>e\<close> of two is at most \<open>x\<close>, the next is above.\<close>

definition exponent_of :: "rat \<Rightarrow> int" where
  "exponent_of x = (if 1 \<le> x then bitlen \<lfloor>x\<rfloor> - 1 else - bitlen (\<lceil>1 / x\<rceil> - 1))"

definition round_half_even :: "rat \<Rightarrow> int" where
  "round_half_even x =
     (let f = \<lfloor>x\<rfloor>; d = x - of_int f
      in if d < 1 / 2 then f else if 1 / 2 < d then f + 1 else if even f then f else f + 1)"

definition round_to_double :: "rat \<Rightarrow> number" where
  "round_to_double x =
     (if x = 0 then Finite 0
      else let e = max (exponent_of \<bar>x\<bar>) (- 1022);
               q = pow2 (e - 52);
               y = of_int (round_half_even (\<bar>x\<bar> / q)) * q
           in if pow2 1024 \<le> y then (if 0 < x then PosInfinity else NegInfinity)
              else Finite (if 0 < x then y else - y))"

text \<open>The operator \<^verbatim>\<open>+\<close> on two numbers.\<close>

fun js_add :: "number \<Rightarrow> number \<Rightarrow> number" where
  "js_add (Finite a) (Finite b) = round_to_double (a + b)"
| "js_add NaN _ = NaN"
| "js_add _ NaN = NaN"
| "js_add PosInfinity NegInfinity = NaN"
| "js_add NegInfinity PosInfinity = NaN"
| "js_add PosInfinity _ = PosInfinity"
| "js_add _ PosInfinity = PosInfinity"
| "js_add NegInfinity _ = NegInfinity"
| "js_add _ NegInfinity = NegInfinity"

section \<open>Records held by the three object stores\<close>

text \<open>
  The database of \<^verbatim>\<open>www/js/db.js\<close> has three object stores, \<^verbatim>\<open>parents\<close>,
  \<^verbatim>\<open>entries\<close> and \<^verbatim>\<open>categories\<close>, each keyed by the field \<^verbatim>\<open>id\<close> of its
  records. Field names are prefixed where two kinds of record share a name.
  Timestamps are integers (milliseconds). Amounts and totals are numbers. An amount
  reaches the store as a number (the form handler of ui.js parses the input), and
  \<^verbatim>\<open>parseFloat\<close> of a number is that number. The ids of categories and their names
  are lists of UTF-16 code units, as the id is computed from the characters of the
  name; the other strings are compared and stored only.
\<close>

record parent =
  p_id :: string
  p_name :: string
  p_createdAt :: int
  totalExpenses :: number

record entry =
  e_id :: string
  parentId :: string
  description :: string
  amount :: number
  category :: string
  date :: int
  e_createdAt :: int

type_synonym jstring = "nat list"

record category_rec =
  c_id :: jstring
  c_name :: jstring
  isDefault :: bool
  c_createdAt :: int

record db =
  parents :: "parent list"
  entries :: "entry list"
  categories :: "category_rec list"

text \<open>
  What a promise can come to. \<open>Rejected\<close> carries the error; \<open>Pending\<close> is the
  promise whose \<^verbatim>\<open>resolve\<close> and \<^verbatim>\<open>reject\<close> are never called.
  \<open>ParentNotFound\<close>, \<open>EntryNotFound\<close> and \<open>CannotDeleteDefault\<close> are the three
  \<^verbatim>\<open>new Error(...)\<close> of db.js, \<open>ConstraintError\<close> is the \<^verbatim>\<open>request.error\<close> of a
  failed \<^verbatim>\<open>store.add\<close>, \<open>TypeError\<close> is raised by \<^verbatim>\<open>for ... of\<close> over
  a value that is not iterable, \<open>DataError\<close> is thrown by \<^verbatim>\<open>store.add\<close> for a value
  that has no \<^verbatim>\<open>id\<close>, and \<open>InvalidDataFormat\<close> is thrown by the import handler of
  ui.js.
\<close>

datatype error =
  ParentNotFound | EntryNotFound | CannotDeleteDefault
  | ConstraintError | DataError | TypeError | InvalidDataFormat

datatype 'a outcome = Resolved 'a | Rejected error | Pending

section \<open>An object store\<close>

text \<open>
  An object store keeps its records in ascending order of their key, and that is the
  order \<^verbatim>\<open>getAll\<close> returns them in. Keys are strings, compared unit by unit.
  \<^verbatim>\<open>add\<close> fails when the key is taken, \<^verbatim>\<open>put\<close> replaces, \<^verbatim>\<open>delete\<close> of a key
  that is absent succeeds.
\<close>

definition store_get :: "('a \<Rightarrow> 'k) \<Rightarrow> 'a list \<Rightarrow> 'k \<Rightarrow> 'a option" where
  "store_get key xs k = find (\<lambda>x. key x = k) xs"

definition store_add :: "('a \<Rightarrow> 'k::linorder) \<Rightarrow> 'a \<Rightarrow> 'a list \<Rightarrow> 'a list option" where
  "store_add key x xs =
     (if key x \<in> set (map key xs) then None else Some (insort_key key x xs))"

definition store_put :: "('a \<Rightarrow> 'k::linorder) \<Rightarrow> 'a \<Rightarrow> 'a list \<Rightarrow> 'a list" where
  "store_put key x xs = insort_key key x (filter (\<lambda>y. key y \<noteq> key x) xs)"

definition store_delete :: "('a \<Rightarrow> 'k) \<Rightarrow> 'k \<Rightarrow> 'a list \<Rightarrow> 'a list" where
  "store_delete key k xs = filter (\<lambda>y. key y \<noteq> k) xs"

definition empty_db :: db where
  "empty_db = \<lparr>parents = [], entries = [], categories = []\<rparr>"

section \<open>Parent operations\<close>

text \<open>
  \<^verbatim>\<open>createParent(name, monthYear)\<close>. The id is \<^verbatim>\<open>monthYear || generateMonthYearId()\<close>:
  the empty string is falsy, as \<^verbatim>\<open>null\<close> is. The generated id and the clock reading
  are arguments.
\<close>

definition createParent :: "db \<Rightarrow> string \<Rightarrow> int \<Rightarrow> string \<Rightarrow> string option \<Rightarrow> parent outcome \<times> db" where
  "createParent s generated now name monthYear =
     (let p = \<lparr>p_id = (case monthYear of None \<Rightarrow> generated
                        | Some m \<Rightarrow> if m = [] then generated else m),
               p_name = name, p_createdAt = now, totalExpenses = Finite 0\<rparr>
      in case store_add p_id p (parents s) of
           None \<Rightarrow> (Rejected ConstraintError, s)
         | Some ps \<Rightarrow> (Resolved p, s\<lparr>parents := ps\<rparr>))"

text \<open>\<^verbatim>\<open>getAllParents\<close>: \<^verbatim>\<open>getAll()\<close>, then a stable sort, newest first.\<close>

definition getAllParents :: "db \<Rightarrow> parent list" where
  "getAllParents s = sort_key (\<lambda>p. - p_createdAt p) (parents s)"

definition getParent :: "db \<Rightarrow> string \<Rightarrow> parent option" where
  "getParent s k = store_get p_id (parents s) k"

text \<open>
  \<^verbatim>\<open>getEntriesByParent\<close>: the index \<^verbatim>\<open>parentId\<close> lists the records of one parent
  in the order of their primary key; then a stable sort by date, latest first.
\<close>

definition getEntriesByParent :: "db \<Rightarrow> string \<Rightarrow> entry list" where
  "getEntriesByParent s pid =
     sort_key (\<lambda>e. - date e) (filter (\<lambda>e. parentId e = pid) (entries s))"

definition getEntry :: "db \<Rightarrow> string \<Rightarrow> entry option" where
  "getEntry s k = store_get e_id (entries s) k"

text \<open>
  \<^verbatim>\<open>updateParentTotal\<close>: \<^verbatim>\<open>entries.reduce((sum, entry) => sum + entry.amount, 0)\<close>
  over the list \<^verbatim>\<open>getEntriesByParent\<close> returns, from the left, stored in the parent
  when there is one, and \<^verbatim>\<open>reject(new Error('Parent not found'))\<close>
  otherwise.
\<close>

definition updateParentTotal :: "db \<Rightarrow> string \<Rightarrow> parent outcome \<times> db" where
  "updateParentTotal s pid =
     (let total = foldl (\<lambda>sum e. js_add sum (amount e)) (Finite 0) (getEntriesByParent s pid)
      in case store_get p_id (parents s) pid of
           Some p \<Rightarrow> (let p' = p\<lparr>totalExpenses := total\<rparr>
                      in (Resolved p', s\<lparr>parents := store_put p_id p' (parents s)\<rparr>))
         | None \<Rightarrow> (Rejected ParentNotFound, s))"

text \<open>
  The entry operations call \<^verbatim>\<open>updateParentTotal\<close> from inside a success callback:
  \<^verbatim>\<open>request.onsuccess = async () => { await this.updateParentTotal(..); resolve(v); }\<close>.
  When the awaited promise rejects, the callback stops before \<^verbatim>\<open>resolve(v)\<close>; nothing
  calls \<^verbatim>\<open>reject\<close> either, so the promise the operation returned stays pending.
\<close>

fun then_resolve :: "'a \<Rightarrow> 'b outcome \<times> db \<Rightarrow> 'a outcome \<times> db" where
  "then_resolve v (Resolved _, s) = (Resolved v, s)"
| "then_resolve v (Rejected _, s) = (Pending, s)"
| "then_resolve v (Pending, s) = (Pending, s)"

section \<open>Entry operations\<close>

text \<open>
  \<^verbatim>\<open>createEntry(parentId, description, amount, category, date)\<close>. The generated UUID
  and the two readings of \<^verbatim>\<open>Date.now()\<close> are arguments. \<^verbatim>\<open>date || Date.now()\<close>
  takes the clock for \<^verbatim>\<open>null\<close> and for \<^verbatim>\<open>0\<close>.
\<close>

definition createEntry ::
  "db \<Rightarrow> string \<Rightarrow> int \<Rightarrow> int \<Rightarrow> string \<Rightarrow> string \<Rightarrow> number \<Rightarrow> string \<Rightarrow> int option
     \<Rightarrow> entry outcome \<times> db" where
  "createEntry s uuid now_date now_created pid descr amt cat dt =
     (let e = \<lparr>e_id = uuid, parentId = pid, description = descr, amount = amt,
               category = cat,
               date = (case dt of None \<Rightarrow> now_date
                       | Some d \<Rightarrow> if d = 0 then now_date else d),
               e_createdAt = now_created\<rparr>
      in case store_add e_id e (entries s) of
           None \<Rightarrow> (Rejected ConstraintError, s)
         | Some es \<Rightarrow> then_resolve e (updateParentTotal (s\<lparr>entries := es\<rparr>) pid))"




definition deleteEntry :: "db \<Rightarrow> string \<Rightarrow> bool \<Rightarrow> unit outcome \<times> db" where
  "deleteEntry s k updateTotal =
     (case store_get e_id (entries s) k of
        Some e \<Rightarrow>
          (let s' = s\<lparr>entries := store_delete e_id k (entries s)\<rparr>
           in if updateTotal then then_resolve () (updateParentTotal s' (parentId e))
              else (Resolved (), s'))
      | None \<Rightarrow> (Resolved (), s))"

text \<open>
  \<^verbatim>\<open>duplicateEntry(id)\<close>: \<^verbatim>\<open>throw new Error('Entry not found')\<close> in the body of the
  async function rejects its promise. The copy takes a generated UUID and the clock.
\<close>

definition duplicateEntry :: "db \<Rightarrow> string \<Rightarrow> int \<Rightarrow> string \<Rightarrow> entry outcome \<times> db" where
  "duplicateEntry s uuid now k =
     (case getEntry s k of
        None \<Rightarrow> (Rejected EntryNotFound, s)
      | Some original \<Rightarrow>
          (let duplicate = original\<lparr>e_id := uuid, e_createdAt := now\<rparr>
           in case store_add e_id duplicate (entries s) of
                None \<Rightarrow> (Rejected ConstraintError, s)
              | Some es \<Rightarrow>
                  then_resolve duplicate
                    (updateParentTotal (s\<lparr>entries := es\<rparr>) (parentId duplicate))))"

text \<open>
  \<^verbatim>\<open>deleteParent(id)\<close>: the loop over \<^verbatim>\<open>getEntriesByParent(id)\<close> awaits
  \<^verbatim>\<open>deleteEntry(entry.id, false)\<close> for each entry; should one of them not resolve,
  the parent is not reached.
\<close>

fun delete_each :: "db \<Rightarrow> entry list \<Rightarrow> unit outcome \<times> db" where
  "delete_each s [] = (Resolved (), s)"
| "delete_each s (e # es) =
     (case deleteEntry s (e_id e) False of
        (Resolved _, s') \<Rightarrow> delete_each s' es
      | (Rejected err, s') \<Rightarrow> (Rejected err, s')
      | (Pending, s') \<Rightarrow> (Pending, s'))"

definition deleteParent :: "db \<Rightarrow> string \<Rightarrow> unit outcome \<times> db" where
  "deleteParent s k =
     (case delete_each s (getEntriesByParent s k) of
        (Resolved _, s') \<Rightarrow> (Resolved (), s'\<lparr>parents := store_delete p_id k (parents s')\<rparr>)
      | (Rejected err, s') \<Rightarrow> (Rejected err, s')
      | (Pending, s') \<Rightarrow> (Pending, s'))"

section \<open>Category operations\<close>

text \<open>
  The id of a category is \<^verbatim>\<open>name.toLowerCase().replace(/\s+/g, '-')\<close>. The class
  \<^verbatim>\<open>\s\<close> is the white space and the line terminators of the language: tab, line
  feed, vertical tab, form feed, carriage return, space, no-break space, U+1680,
  U+2000 to U+200A, U+2028, U+2029, U+202F, U+205F, U+3000 and U+FEFF. Each maximal
  run of them becomes one hyphen (code unit 45). \<^verbatim>\<open>toLowerCase\<close> follows the
  case tables of Unicode, which belong to the platform: it is an argument of the
  operations that derive an id.
\<close>

definition is_space :: "nat \<Rightarrow> bool" where
  "is_space u \<longleftrightarrow>
     u \<in> set [9, 10, 11, 12, 13, 32, 160, 5760, 8232, 8233, 8239, 8287, 12288, 65279]
     \<or> (8192 \<le> u \<and> u \<le> 8202)"

function replace_spaces :: "jstring \<Rightarrow> jstring" where
  "replace_spaces [] = []"
| "replace_spaces (c # cs) =
     (if is_space c then 45 # replace_spaces (dropWhile is_space cs)
      else c # replace_spaces cs)"
  by pat_completeness auto
termination
  by (relation "measure length") (auto simp: less_Suc_eq_le length_dropWhile_le)

definition category_id :: "(jstring \<Rightarrow> jstring) \<Rightarrow> jstring \<Rightarrow> jstring" where
  "category_id toLowerCase name = replace_spaces (toLowerCase name)"

text \<open>
  The store \<^verbatim>\<open>categories\<close> has a unique index on \<^verbatim>\<open>name\<close>: \<^verbatim>\<open>add\<close> fails
  when the key or the name is taken.
\<close>

definition category_add :: "category_rec \<Rightarrow> category_rec list \<Rightarrow> category_rec list option" where
  "category_add c cs =
     (if c_id c \<in> set (map c_id cs) \<or> c_name c \<in> set (map c_name cs) then None
      else Some (insort_key c_id c cs))"

definition createCategory ::
  "(jstring \<Rightarrow> jstring) \<Rightarrow> db \<Rightarrow> int \<Rightarrow> jstring \<Rightarrow> bool \<Rightarrow> category_rec outcome \<times> db" where
  "createCategory toLowerCase s now name isDef =
     (let c = \<lparr>c_id = category_id toLowerCase name, c_name = name, isDefault = isDef,
               c_createdAt = now\<rparr>
      in case category_add c (categories s) of
           None \<Rightarrow> (Rejected ConstraintError, s)
         | Some cs \<Rightarrow> (Resolved c, s\<lparr>categories := cs\<rparr>))"

text \<open>
  \<^verbatim>\<open>getCategories\<close> sorts by \<^verbatim>\<open>a.name.localeCompare(b.name)\<close>. The collation of the
  locale is the argument \<open>collate\<close>, a key into a linear order.
\<close>

definition getCategories :: "(jstring \<Rightarrow> 'o::linorder) \<Rightarrow> db \<Rightarrow> category_rec list" where
  "getCategories collate s = sort_key (\<lambda>c. collate (c_name c)) (categories s)"

definition deleteCategory :: "db \<Rightarrow> jstring \<Rightarrow> unit outcome \<times> db" where
  "deleteCategory s k =
     (case store_get c_id (categories s) k of
        Some c \<Rightarrow>
          (if \<not> isDefault c
           then (Resolved (), s\<lparr>categories := store_delete c_id k (categories s)\<rparr>)
           else (Rejected CannotDeleteDefault, s))
      | None \<Rightarrow> (Rejected CannotDeleteDefault, s))"

text \<open>The code units of a string of ASCII characters.\<close>

definition units :: "string \<Rightarrow> jstring" where
  "units cs = map of_char cs"

definition defaultCategories :: "jstring list" where
  "defaultCategories =
     map units
       [''Food'', ''Transport'', ''Shopping'', ''Bills & Utilities'', ''Entertainment'',
        ''Health & Medical'', ''Education'', ''Groceries'', ''Others'']"

text \<open>
  \<^verbatim>\<open>seedDefaultCategories\<close>: a name that cannot be added is skipped. One clock
  reading stands for the nine readings of \<^verbatim>\<open>Date.now()\<close>.
\<close>

fun seed_each :: "(jstring \<Rightarrow> jstring) \<Rightarrow> db \<Rightarrow> int \<Rightarrow> jstring list \<Rightarrow> db" where
  "seed_each toLowerCase s now [] = s"
| "seed_each toLowerCase s now (name # names) =
     seed_each toLowerCase (snd (createCategory toLowerCase s now name True)) now names"

definition seedDefaultCategories :: "(jstring \<Rightarrow> jstring) \<Rightarrow> db \<Rightarrow> int \<Rightarrow> db" where
  "seedDefaultCategories toLowerCase s now = seed_each toLowerCase s now defaultCategories"

section \<open>Export and import\<close>

text \<open>
  The object \<^verbatim>\<open>data\<close> that \<^verbatim>\<open>importData\<close> receives comes from \<^verbatim>\<open>JSON.parse\<close>.
  Under each of its keys there may be nothing, \<^verbatim>\<open>null\<close>, a boolean, a number, a
  string, an object that is not an array, or an array; the elements of an array are
  taken to be records of the store. \<^verbatim>\<open>{}\<close> is \<open>empty_snapshot\<close>.
\<close>

datatype 'a jvalue =
  JUndefined | JNull | JBool bool | JNumber number | JString string | JObject
  | JArray "'a list"

text \<open>What \<^verbatim>\<open>!v\<close> and \<^verbatim>\<open>if (v)\<close> test.\<close>

fun truthy :: "'a jvalue \<Rightarrow> bool" where
  "truthy JUndefined = False"
| "truthy JNull = False"
| "truthy (JBool b) = b"
| "truthy (JNumber n) = (n \<noteq> Finite 0 \<and> n \<noteq> NaN)"
| "truthy (JString cs) = (cs \<noteq> [])"
| "truthy JObject = True"
| "truthy (JArray xs) = True"

text \<open>
  What \<^verbatim>\<open>for (const x of v)\<close> runs over: the elements of an array, the characters of
  a string (\<open>None\<close> stands for a character, a value without an \<^verbatim>\<open>id\<close>), and for
  any other value the loop throws a \<^verbatim>\<open>TypeError\<close>.
\<close>

fun iterate :: "'a jvalue \<Rightarrow> 'a option list option" where
  "iterate (JArray xs) = Some (map Some xs)"
| "iterate (JString cs) = Some (map (\<lambda>c. None) cs)"
| "iterate v = None"

record snapshot =
  snap_parents :: "parent jvalue"
  snap_entries :: "entry jvalue"
  snap_categories :: "category_rec jvalue"
  exportDate :: "string option"
  version :: "nat option"


definition exportData :: "(jstring \<Rightarrow> 'o::linorder) \<Rightarrow> string \<Rightarrow> db \<Rightarrow> snapshot" where
  "exportData collate isoDate s =
     (let ps = getAllParents s
      in \<lparr>snap_parents = JArray ps,
          snap_entries = JArray (concat (map (\<lambda>p. getEntriesByParent s (p_id p)) ps)),
          snap_categories = JArray (getCategories collate s),
          exportDate = Some isoDate,
          version = Some 2\<rparr>)"

definition clearAllData :: "db \<Rightarrow> db" where
  "clearAllData s = s\<lparr>parents := [], entries := []\<rparr>"

text \<open>
  Categories of the snapshot: the \<^verbatim>\<open>try\<close> in the loop and
  \<^verbatim>\<open>request.onerror = () => resolve()\<close> skip every add that fails.
\<close>

fun import_categories ::
  "category_rec list \<Rightarrow> category_rec option list \<Rightarrow> category_rec list" where
  "import_categories cs [] = cs"
| "import_categories cs (None # rest) = import_categories cs rest"
| "import_categories cs (Some c # rest) =
     import_categories (case category_add c cs of None \<Rightarrow> cs | Some cs' \<Rightarrow> cs') rest"

text \<open>
  Parents and entries of the snapshot: the first failed add rejects, and the records
  added before it stay.
\<close>

fun add_each ::
  "('a \<Rightarrow> string) \<Rightarrow> 'a list \<Rightarrow> 'a option list \<Rightarrow> error option \<times> 'a list" where
  "add_each key store [] = (None, store)"
| "add_each key store (None # xs) = (Some DataError, store)"
| "add_each key store (Some x # xs) =
     (case store_add key x store of
        None \<Rightarrow> (Some ConstraintError, store)
      | Some store' \<Rightarrow> add_each key store' xs)"

text \<open>The two loops of \<^verbatim>\<open>importData\<close> over \<^verbatim>\<open>data.parents\<close> and \<^verbatim>\<open>data.entries\<close>.\<close>

definition import_entries :: "db \<Rightarrow> entry jvalue \<Rightarrow> unit outcome \<times> db" where
  "import_entries s v =
     (case iterate v of
        None \<Rightarrow> (Rejected TypeError, s)
      | Some es \<Rightarrow>
          (case add_each e_id (entries s) es of
             (Some err, es') \<Rightarrow> (Rejected err, s\<lparr>entries := es'\<rparr>)
           | (None, es') \<Rightarrow> (Resolved (), s\<lparr>entries := es'\<rparr>)))"

definition import_parents :: "db \<Rightarrow> snapshot \<Rightarrow> unit outcome \<times> db" where
  "import_parents s data =
     (case iterate (snap_parents data) of
        None \<Rightarrow> (Rejected TypeError, s)
      | Some ps \<Rightarrow>
          (case add_each p_id (parents s) ps of
             (Some err, ps') \<Rightarrow> (Rejected err, s\<lparr>parents := ps'\<rparr>)
           | (None, ps') \<Rightarrow> import_entries (s\<lparr>parents := ps'\<rparr>) (snap_entries data)))"

definition importData :: "db \<Rightarrow> snapshot \<Rightarrow> unit outcome \<times> db" where
  "importData s data =
     (let s1 = clearAllData s
      in if truthy (snap_categories data)
         then (case iterate (snap_categories data) of
                 None \<Rightarrow> (Rejected TypeError, s1)
               | Some cs \<Rightarrow>
                   import_parents (s1\<lparr>categories := import_categories (categories s1) cs\<rparr>) data)
         else import_parents s1 data)"

text \<open>
  The import handler of \<^verbatim>\<open>www/js/ui.js\<close>, from the parsed file on:
  \<^verbatim>\<open>if (!data.parents || !data.entries) throw new Error('Invalid data format')\<close>, then
  \<^verbatim>\<open>await db.importData(data)\<close> and the toast of success. All of it is inside a
  \<^verbatim>\<open>try\<close>; the \<^verbatim>\<open>catch\<close> writes the error to the console and shows the toast of
  failure. The result is the toast (none while \<^verbatim>\<open>importData\<close> is pending), the error
  written to the console, and the store.
\<close>

definition ui_importData :: "db \<Rightarrow> snapshot \<Rightarrow> (string option \<times> error option) \<times> db" where
  "ui_importData s data =
     (if \<not> truthy (snap_parents data) \<or> \<not> truthy (snap_entries data)
      then ((Some ''Failed to import data. Please check the file format.'',
             Some InvalidDataFormat), s)
      else (case importData s data of
              (Resolved _, s') \<Rightarrow> ((Some ''Data imported successfully'', None), s')
            | (Rejected err, s') \<Rightarrow>
                ((Some ''Failed to import data. Please check the file format.'', Some err), s')
            | (Pending, s') \<Rightarrow> ((None, None), s')))"

section \<open>The fetch handler of the service worker\<close>

text \<open>
  \<^verbatim>\<open>caches.match(request).then(response => response || fetch(request).then(..)).catch(..)\<close>.
  The cache is a map from requests to responses, the outcome of \<^verbatim>\<open>fetch\<close> is an
  argument (a failed fetch rejects with a \<^verbatim>\<open>TypeError\<close>), and the result is the
  promise handed to \<^verbatim>\<open>event.respondWith\<close>, the cache after the handler and the lines
  written to the console. The \<^verbatim>\<open>catch\<close> callback returns nothing, so its promise is
  fulfilled with \<^verbatim>\<open>undefined\<close>, here \<open>None\<close>.
\<close>

record response =
  status :: nat
  body :: string

definition fetch_handler ::
  "(string \<rightharpoonup> response) \<Rightarrow> string \<Rightarrow> response outcome
     \<Rightarrow> response option outcome \<times> (string \<rightharpoonup> response) \<times> string list" where
  "fetch_handler cache request network =
     (case cache request of
        Some cached \<Rightarrow> (Resolved (Some cached), cache, [])
      | None \<Rightarrow>
          (case network of
             Resolved fetchResponse \<Rightarrow>
               (Resolved (Some fetchResponse),
                if status fetchResponse = 200 then cache(request \<mapsto> fetchResponse) else cache,
                [])
           | Rejected err \<Rightarrow>
               (Resolved None, cache, [''Fetch failed; returning offline page instead.''])
           | Pending \<Rightarrow> (Pending, cache, [])))"

text \<open>
  What the page that made the request receives from \<^verbatim>\<open>event.respondWith(r)\<close>, by the
  rule of the browser: the response when \<open>r\<close> is fulfilled with one; a network error,
  which rejects the \<^verbatim>\<open>fetch\<close> of the page with a \<^verbatim>\<open>TypeError\<close>, when \<open>r\<close> is
  rejected or fulfilled with a value that is not a response.
\<close>

fun respondWith :: "response option outcome \<Rightarrow> response outcome" where
  "respondWith (Resolved (Some r)) = Resolved r"
| "respondWith (Resolved None) = Rejected TypeError"
| "respondWith (Rejected err) = Rejected TypeError"
| "respondWith Pending = Pending"

section \<open>Vocabulary of the properties\<close>

text \<open>
  The total of a group as \<^verbatim>\<open>updateParentTotal\<close> computes it: the amounts of the
  entries that name the group, in the order \<^verbatim>\<open>getEntriesByParent\<close> lists them, added
  from the left, starting from 0, each sum rounded to a double.
\<close>

definition group_total :: "db \<Rightarrow> string \<Rightarrow> number" where
  "group_total s g = foldl (\<lambda>sum e. js_add sum (amount e)) (Finite 0) (getEntriesByParent s g)"

text \<open>Every stored group carries the total of its entries; the same, one group left out.\<close>

definition consistent :: "db \<Rightarrow> bool" where
  "consistent s \<longleftrightarrow> (\<forall>p \<in> set (parents s). totalExpenses p = group_total s (p_id p))"






text \<open>What the object stores guarantee: keys in ascending order, no key twice.\<close>

definition entry_ids_unique :: "db \<Rightarrow> bool" where
  "entry_ids_unique s \<longleftrightarrow> distinct (map e_id (entries s))"

definition keys_ok :: "('a \<Rightarrow> string) \<Rightarrow> 'a list \<Rightarrow> bool" where
  "keys_ok key xs \<longleftrightarrow> sorted (map key xs) \<and> distinct (map key xs)"

definition wf_db :: "db \<Rightarrow> bool" where
  "wf_db s \<longleftrightarrow> keys_ok p_id (parents s) \<and> keys_ok e_id (entries s)"

text \<open>An entry whose \<^verbatim>\<open>parentId\<close> is the id of a stored group; a store without orphans.\<close>

definition has_parent :: "db \<Rightarrow> entry \<Rightarrow> bool" where
  "has_parent s e \<longleftrightarrow> parentId e \<in> set (map p_id (parents s))"

definition no_orphans :: "db \<Rightarrow> bool" where
  "no_orphans s \<longleftrightarrow> list_all (has_parent s) (entries s)"

subsection \<open>Stores and calls used as examples\<close>

definition coffee :: entry where
  "coffee = \<lparr>e_id = ''e1'', parentId = ''2024-01'', description = ''Coffee'',
             amount = Finite 5, category = ''Food'', date = 10, e_createdAt = 3\<rparr>"

definition january :: parent where
  "january = \<lparr>p_id = ''2024-01'', p_name = ''January'', p_createdAt = 1,
              totalExpenses = Finite 5\<rparr>"

definition february :: parent where
  "february = \<lparr>p_id = ''2024-02'', p_name = ''February'', p_createdAt = 2,
               totalExpenses = Finite 0\<rparr>"

definition db_two_groups :: db where
  "db_two_groups = \<lparr>parents = [january, february], entries = [coffee], categories = []\<rparr>"



text \<open>A store with an entry of a group that does not exist, as \<^verbatim>\<open>createEntry\<close> leaves it.\<close>

definition db_orphan :: db where
  "db_orphan =
     snd (createEntry empty_db ''e1'' 10 3 ''2024-01'' ''Coffee'' (Finite 5) ''Food'' None)"

text \<open>A backup file whose group carries a total that is not the sum of its entries.\<close>

definition stale_snapshot :: snapshot where
  "stale_snapshot =
     \<lparr>snap_parents = JArray [january\<lparr>totalExpenses := Finite 0\<rparr>],
      snap_entries = JArray [coffee],
      snap_categories = JUndefined, exportDate = None, version = None\<rparr>"

definition db_imported :: db where
  "db_imported = snd (ui_importData empty_db stale_snapshot)"


text \<open>
  The doubles that the literals \<^verbatim>\<open>0.1\<close>, \<^verbatim>\<open>0.2\<close> and \<^verbatim>\<open>0.3\<close> denote, and a
  January that is created empty and then receives three entries of these amounts,
  the latest first in its list.
\<close>

definition d01 :: number where "d01 = round_to_double (1 / 10)"

definition d02 :: number where "d02 = round_to_double (2 / 10)"

definition d03 :: number where "d03 = round_to_double (3 / 10)"

definition db_january :: db where
  "db_january = snd (createParent empty_db ''2024-01'' 1 ''January'' (Some ''2024-01''))"

definition db_tenths :: db where
  "db_tenths =
     snd (createEntry
            (snd (createEntry db_january ''e1'' 30 3 ''2024-01'' ''Tea'' d01 ''Food'' None))
            ''e2'' 20 4 ''2024-01'' ''Bun'' d02 ''Food'' None)"

definition db_three_tenths :: db where
  "db_three_tenths =
     snd (createEntry db_tenths ''e3'' 10 5 ''2024-01'' ''Jam'' d03 ''Food'' None)"

text \<open>
  \<^verbatim>\<open>toLowerCase\<close> on names of ASCII characters, and the store after
  \<^verbatim>\<open>seedDefaultCategories\<close>.
\<close>

definition toLowerCase_ascii :: "jstring \<Rightarrow> jstring" where
  "toLowerCase_ascii us = map (\<lambda>u. if 65 \<le> u \<and> u \<le> 90 then u + 32 else u) us"

definition db_seeded :: db where
  "db_seeded = seedDefaultCategories toLowerCase_ascii empty_db 0"

section \<open>Numbers: the exponent, and sums of given doubles\<close>

lemma pow2_pos: "0 < pow2 e" by (simp add: pow2_def)

lemma pow2_nat: "0 \<le> e \<Longrightarrow> pow2 e = 2 ^ nat e" by (simp add: pow2_def)

lemma pow2_neg: "pow2 (- e) = 1 / pow2 e"
  by (cases "e = 0") (auto simp: pow2_def)

lemma pow2_Suc: "pow2 (e + 1) = 2 * pow2 e"
proof (cases "0 \<le> e")
  case True
  then show ?thesis by (simp add: pow2_def nat_add_distrib)
next
  case False
  then have "nat (- e) = Suc (nat (- (e + 1)))" by simp
  with False show ?thesis by (auto simp: pow2_def)
qed

lemma exponent_of_bounds:
  assumes "0 < x"
  shows "pow2 (exponent_of x) \<le> x \<and> x < pow2 (exponent_of x + 1)"
proof (cases "1 \<le> x")
  case True
  let ?n = "\<lfloor>x\<rfloor>"
  have n: "0 < ?n" using True by simp
  from bitlen_bounds[OF n] have b: "2 ^ nat (bitlen ?n - 1) \<le> ?n" "?n < 2 ^ nat (bitlen ?n)" by auto
  have ge: "0 \<le> bitlen ?n - 1" using n by (simp add: bitlen_def floorlog_def)
  have "(2::rat) ^ nat (bitlen ?n - 1) \<le> of_int ?n" using b(1)
    by (metis of_int_le_iff of_int_numeral of_int_power)
  also have "\<dots> \<le> x" by simp
  finally have lo: "pow2 (bitlen ?n - 1) \<le> x" using ge by (simp add: pow2_def)
  have "?n + 1 \<le> 2 ^ nat (bitlen ?n)" using b(2) by simp
  then have "of_int (?n + 1) \<le> (2::rat) ^ nat (bitlen ?n)"
    by (metis of_int_le_iff of_int_numeral of_int_power)
  moreover have "x < of_int (?n + 1)" by linarith
  ultimately have "x < 2 ^ nat (bitlen ?n)" by linarith
  then have hi: "x < pow2 (bitlen ?n - 1 + 1)" using ge by (simp add: pow2_def)
  from lo hi True show ?thesis by (simp add: exponent_of_def)
next
  case False
  let ?y = "1 / x"
  let ?m = "\<lceil>?y\<rceil> - 1"
  have y: "1 < ?y" using False assms by simp
  then have m: "0 < ?m" by linarith
  let ?k = "bitlen ?m"
  from bitlen_bounds[OF m] have b: "2 ^ nat (?k - 1) \<le> ?m" "?m < 2 ^ nat ?k" by auto
  have k: "1 \<le> ?k" using m by (simp add: bitlen_def floorlog_def)
  have "\<lceil>?y\<rceil> \<le> 2 ^ nat ?k" using b(2) by simp
  then have "of_int \<lceil>?y\<rceil> \<le> (2::rat) ^ nat ?k"
    by (metis of_int_le_iff of_int_numeral of_int_power)
  then have yk: "?y \<le> 2 ^ nat ?k" by linarith
  have "(2::rat) ^ nat (?k - 1) \<le> of_int ?m" using b(1)
    by (metis of_int_le_iff of_int_numeral of_int_power)
  moreover have "of_int ?m < ?y" by linarith
  ultimately have ky: "(2::rat) ^ nat (?k - 1) < ?y" by linarith
  have lo: "pow2 (- ?k) \<le> x"
  proof -
    have "1 / 2 ^ nat ?k \<le> 1 / ?y" using yk y assms by (intro divide_left_mono) auto
    then show ?thesis using k assms by (simp add: pow2_def)
  qed
  have hi: "x < pow2 (- ?k + 1)"
  proof -
    have "1 / ?y < 1 / 2 ^ nat (?k - 1)" using ky assms by (intro divide_strict_left_mono) auto
    moreover have "pow2 (- ?k + 1) = 1 / 2 ^ nat (?k - 1)"
      using k by (cases "?k = 1") (auto simp: pow2_def)
    ultimately show ?thesis using assms by simp
  qed
  from lo hi False show ?thesis by (simp add: exponent_of_def)
qed

lemma round_half_even_of_int: "round_half_even (of_int n) = n"
  by (simp add: round_half_even_def)

lemma round_half_even_near: "\<bar>of_int (round_half_even x) - x\<bar> \<le> 1 / 2"
proof -
  have "of_int \<lfloor>x\<rfloor> \<le> x" and "x < of_int \<lfloor>x\<rfloor> + 1" by linarith+
  then show ?thesis by (auto simp: round_half_even_def Let_def abs_le_iff)
qed

text \<open>Rules that let the simplifier compute the sum of two given doubles.\<close>

lemma floor_rat_numeral_div: "\<lfloor>(numeral a :: rat) / numeral b\<rfloor> = numeral a div numeral b"
  using floor_divide_of_int_eq[of "numeral a" "numeral b", where ?'a = rat] by simp

lemma ceiling_rat_numeral_div:
  "\<lceil>(numeral a :: rat) / numeral b\<rceil> = - (- numeral a div numeral b)"
  using floor_divide_of_int_eq[of "- numeral a" "numeral b", where ?'a = rat]
  by (simp add: ceiling_def)

lemma bitlen_numeral_eval: "bitlen (numeral n) = bitlen (numeral n div 2) + 1"
  by (subst compute_bitlen) simp

lemma bitlen_one_eval: "bitlen 1 = 1"
  by (subst compute_bitlen) simp

lemmas number_eval =
  round_to_double_def exponent_of_def pow2_def round_half_even_def Let_def
  bitlen_numeral_eval bitlen_one_eval floor_rat_numeral_div ceiling_rat_numeral_div


lemma d01_value: "d01 = Finite (3602879701896397 / 36028797018963968)"
  by (simp add: d01_def number_eval)

lemma d02_value: "d02 = Finite (3602879701896397 / 18014398509481984)"
  by (simp add: d02_def number_eval)

lemma d03_value: "d03 = Finite (5404319552844595 / 18014398509481984)"
  by (simp add: d03_def number_eval)

section \<open>Object stores: lookups, keys, multisets\<close>

lemma store_get_Some: "store_get key xs k = Some x \<Longrightarrow> x \<in> set xs \<and> key x = k"
  unfolding store_get_def by (induction xs) (auto split: if_splits)

lemma store_get_None: "store_get key xs k = None \<longleftrightarrow> k \<notin> key ` set xs"
  unfolding store_get_def by (induction xs) auto


lemma store_get_insort:
  "key x \<notin> key ` set xs \<Longrightarrow> store_get key (insort_key key x xs) (key x) = Some x"
  unfolding store_get_def by (induction xs) auto

lemma store_get_put: "store_get key (store_put key x xs) (key x) = Some x"
  unfolding store_put_def by (rule store_get_insort) auto


lemma distinct_map_mset: "mset xs = mset ys \<Longrightarrow> distinct (map f xs) = distinct (map f ys)"
  by (metis mset_eq_imp_distinct_iff mset_map)




lemma keys_ok_unique:
  assumes "keys_ok key xs" and "sorted (map key ys)" and "mset ys = mset xs"
  shows "ys = xs"
proof -
  have d: "distinct (map key ys)"
    using assms(1,3) distinct_map_mset[of ys xs key] by (simp add: keys_ok_def)
  have s: "set ys = set xs" using assms(3) by (rule mset_eq_setD)
  have "inj_on key (set ys \<union> set xs)"
    using assms(1) s by (simp add: keys_ok_def distinct_map)
  from map_sorted_distinct_set_unique[OF this assms(2) d _ _ s] assms(1)
  show ?thesis by (simp add: keys_ok_def)
qed

section \<open>The list of a group and the total that is stored\<close>

lemma set_getEntriesByParent:
  "set (getEntriesByParent s g) = {e \<in> set (entries s). parentId e = g}"
  by (simp add: getEntriesByParent_def)






lemma updateParentTotal_eq:
  "updateParentTotal s g =
     (case store_get p_id (parents s) g of
        Some p \<Rightarrow>
          (Resolved (p\<lparr>totalExpenses := group_total s g\<rparr>),
           s\<lparr>parents := store_put p_id (p\<lparr>totalExpenses := group_total s g\<rparr>) (parents s)\<rparr>)
      | None \<Rightarrow> (Rejected ParentNotFound, s))"
  by (simp add: updateParentTotal_def group_total_def Let_def split: option.splits)



section \<open>Two stores whose amounts are tenths\<close>

lemma db_tenths_value:
  "db_tenths =
    \<lparr>parents = [\<lparr>p_id = ''2024-01'', p_name = ''January'', p_createdAt = 1,
                 totalExpenses = Finite (5404319552844596 / 18014398509481984)\<rparr>],
     entries = [\<lparr>e_id = ''e1'', parentId = ''2024-01'', description = ''Tea'',
                  amount = Finite (3602879701896397 / 36028797018963968),
                  category = ''Food'', date = 30, e_createdAt = 3\<rparr>,
                \<lparr>e_id = ''e2'', parentId = ''2024-01'', description = ''Bun'',
                  amount = Finite (3602879701896397 / 18014398509481984),
                  category = ''Food'', date = 20, e_createdAt = 4\<rparr>],
     categories = []\<rparr>"
  by (simp add: db_tenths_def db_january_def createParent_def createEntry_def empty_db_def
        store_add_def store_get_def store_put_def updateParentTotal_def
        getEntriesByParent_def d01_value d02_value number_eval)

lemma db_three_tenths_value:
  "db_three_tenths =
     \<lparr>parents = [\<lparr>p_id = ''2024-01'', p_name = ''January'', p_createdAt = 1,
                  totalExpenses = Finite (1351079888211149 / 2251799813685248)\<rparr>],
      entries = [\<lparr>e_id = ''e1'', parentId = ''2024-01'', description = ''Tea'',
                   amount = Finite (3602879701896397 / 36028797018963968),
                   category = ''Food'', date = 30, e_createdAt = 3\<rparr>,
                 \<lparr>e_id = ''e2'', parentId = ''2024-01'', description = ''Bun'',
                   amount = Finite (3602879701896397 / 18014398509481984),
                   category = ''Food'', date = 20, e_createdAt = 4\<rparr>,
                 \<lparr>e_id = ''e3'', parentId = ''2024-01'', description = ''Jam'',
                   amount = Finite (5404319552844595 / 18014398509481984),
                   category = ''Food'', date = 10, e_createdAt = 5\<rparr>],
      categories = []\<rparr>"
  by (simp add: db_three_tenths_def db_tenths_value createEntry_def
        store_add_def store_get_def store_put_def updateParentTotal_def
        getEntriesByParent_def d03_value number_eval)

section \<open>Totals under sequences of entry operations\<close>














section \<open>What export and import keep\<close>

lemma add_each_fresh:
  "distinct (map key xs) \<Longrightarrow> key ` set xs \<inter> key ` set st = {}
   \<Longrightarrow> \<exists>st'. add_each key st (map Some xs) = (None, st') \<and> mset st' = mset st + mset xs
          \<and> (sorted (map key st) \<longrightarrow> sorted (map key st'))"
proof (induction xs arbitrary: st)
  case Nil
  then show ?case by simp
next
  case (Cons x xs)
  let ?st = "insort_key key x st"
  have add: "store_add key x st = Some ?st"
    using Cons.prems(2) by (auto simp: store_add_def)
  have "distinct (map key xs)" using Cons.prems(1) by simp
  moreover have "key ` set xs \<inter> key ` set ?st = {}"
    using Cons.prems by (auto simp: set_insort_key)
  ultimately obtain st' where st': "add_each key ?st (map Some xs) = (None, st')"
      "mset st' = mset ?st + mset xs" "sorted (map key ?st) \<longrightarrow> sorted (map key st')"
    using Cons.IH[of ?st] by blast
  show ?case using add st' by (simp add: sorted_insort_key)
qed

text \<open>Adding the records of a store to an empty store, in any order, gives the store back.\<close>

lemma add_each_restores:
  assumes "keys_ok key xs" and "mset ys = mset xs"
  shows "add_each key [] (map Some ys) = (None, xs)"
proof -
  have "distinct (map key ys)"
    using assms distinct_map_mset[of ys xs key] by (simp add: keys_ok_def)
  from add_each_fresh[OF this, of "[]"]
  obtain st' where st': "add_each key [] (map Some ys) = (None, st')" "mset st' = mset ys"
      "sorted (map key st')"
    by auto
  from keys_ok_unique[OF assms(1) st'(3)] st'(2) assms(2) have "st' = xs" by simp
  with st'(1) show ?thesis by simp
qed

lemma filter_mset_disjoint_union:
  "(\<And>x. \<not> (P x \<and> Q x))
     \<Longrightarrow> filter_mset P M + filter_mset Q M = filter_mset (\<lambda>x. P x \<or> Q x) M"
  by (induction M) auto

lemma mset_entries_of_parents:
  "distinct (map p_id ps) \<Longrightarrow>
   mset (concat (map (\<lambda>p. getEntriesByParent s (p_id p)) ps))
     = filter_mset (\<lambda>e. parentId e \<in> p_id ` set ps) (mset (entries s))"
proof (induction ps)
  case Nil
  then show ?case by simp
next
  case (Cons p ps)
  have "\<And>x. \<not> (parentId x = p_id p \<and> parentId x \<in> p_id ` set ps)"
    using Cons.prems by auto
  from filter_mset_disjoint_union[of "\<lambda>x. parentId x = p_id p"
      "\<lambda>x. parentId x \<in> p_id ` set ps", OF this]
  show ?case using Cons by (simp add: getEntriesByParent_def)
qed

lemma getAllParents_mset: "mset (getAllParents s) = mset (parents s)"
  by (simp add: getAllParents_def)

lemma exported_entries_mset:
  assumes "distinct (map p_id (parents s))"
  shows "mset (concat (map (\<lambda>p. getEntriesByParent s (p_id p)) (getAllParents s)))
         = mset (filter (has_parent s) (entries s))"
proof -
  have d: "distinct (map p_id (getAllParents s))"
    using assms distinct_map_mset[OF getAllParents_mset, of p_id s] by simp
  have "set (getAllParents s) = set (parents s)" by (simp add: getAllParents_def)
  with mset_entries_of_parents[OF d, of s] show ?thesis
    by (simp add: has_parent_def[abs_def])
qed

text \<open>
  C10. In a store whose group ids are unique, the \<^verbatim>\<open>entries\<close> list of
  \<^verbatim>\<open>exportData()\<close> holds exactly the stored entries whose \<^verbatim>\<open>parentId\<close> is the id of
  a stored group, each once; an entry whose \<^verbatim>\<open>parentId\<close> names no stored group is
  not in the list.
\<close>

theorem export_lists_entries_of_existing_groups:
  assumes "distinct (map p_id (parents s))"
  shows "\<exists>es. snap_entries (exportData collate isoDate s) = JArray es
           \<and> mset es = mset (filter (has_parent s) (entries s))
           \<and> (\<forall>e \<in> set (entries s). \<not> has_parent s e \<longrightarrow> e \<notin> set es)"
proof -
  let ?es = "concat (map (\<lambda>p. getEntriesByParent s (p_id p)) (getAllParents s))"
  have m: "mset ?es = mset (filter (has_parent s) (entries s))"
    by (rule exported_entries_mset[OF assms])
  then have "set ?es = set (filter (has_parent s) (entries s))" by (rule mset_eq_setD)
  then have "\<forall>e \<in> set (entries s). \<not> has_parent s e \<longrightarrow> e \<notin> set ?es" by simp
  with m show ?thesis by (simp add: exportData_def Let_def)
qed

text \<open>The theorem at a store that holds one entry of January and one of a group that is not stored.\<close>

theorem export_lists_entries_witness:
  "distinct (map p_id (parents (db_two_groups\<lparr>entries := [coffee, coffee\<lparr>e_id := ''e2'', parentId := ''2023-12''\<rparr>]\<rparr>)))
   \<and> snap_entries (exportData (\<lambda>n. n) ''2024-03-01T00:00:00.000Z''
         (db_two_groups\<lparr>entries := [coffee, coffee\<lparr>e_id := ''e2'', parentId := ''2023-12''\<rparr>]\<rparr>))
       = JArray [coffee]"
proof -
  let ?s = "db_two_groups\<lparr>entries := [coffee, coffee\<lparr>e_id := ''e2'', parentId := ''2023-12''\<rparr>]\<rparr>"
  have h: "distinct (map p_id (parents ?s))"
    by (simp add: db_two_groups_def january_def february_def)
  have f: "filter (has_parent ?s) (entries ?s) = [coffee]"
    by (simp add: has_parent_def db_two_groups_def january_def february_def coffee_def)
  from export_lists_entries_of_existing_groups[OF h, of "\<lambda>n. n" "''2024-03-01T00:00:00.000Z''"]
  obtain es where es: "snap_entries (exportData (\<lambda>n. n) ''2024-03-01T00:00:00.000Z'' ?s) = JArray es"
      "mset es = mset (filter (has_parent ?s) (entries ?s))"
    by blast
  from es(2) f have "es = [coffee]" by simp
  with es(1) h show ?thesis by simp
qed

text \<open>
  C3, as the code has it. In a store whose keys are unique and in which every entry
  names a stored group, \<^verbatim>\<open>importData(exportData())\<close> resolves, whatever store it is
  run on, and leaves exactly the exported groups and entries: the same records, with
  the same ids, fields and stored totals.
\<close>

theorem export_import_round_trip:
  assumes "wf_db s" and "no_orphans s"
  shows "\<exists>s'. importData t (exportData collate isoDate s) = (Resolved (), s')
           \<and> parents s' = parents s \<and> entries s' = entries s"
proof -
  let ?es = "concat (map (\<lambda>p. getEntriesByParent s (p_id p)) (getAllParents s))"
  have kp: "keys_ok p_id (parents s)" and ke: "keys_ok e_id (entries s)"
    using assms(1) by (simp_all add: wf_db_def)
  have p: "add_each p_id [] (map Some (getAllParents s)) = (None, parents s)"
    by (rule add_each_restores[OF kp getAllParents_mset])
  have "filter (has_parent s) (entries s) = entries s"
    using assms(2) by (simp add: no_orphans_def list_all_iff)
  with exported_entries_mset[of s] kp have "mset ?es = mset (entries s)"
    by (simp add: keys_ok_def)
  from add_each_restores[OF ke this]
  have e: "add_each e_id [] (map Some ?es) = (None, entries s)" .
  show ?thesis
    using p e
    by (simp add: importData_def import_parents_def import_entries_def exportData_def
          clearAllData_def Let_def)
qed

text \<open>The theorem at the store with two groups, imported into an empty store.\<close>

theorem export_import_round_trip_witness:
  "wf_db db_two_groups \<and> no_orphans db_two_groups
   \<and> importData empty_db (exportData (\<lambda>n. n) ''2024-03-01T00:00:00.000Z'' db_two_groups)
       = (Resolved (), db_two_groups)"
proof -
  have h1: "wf_db db_two_groups"
    by (simp add: wf_db_def keys_ok_def db_two_groups_def january_def february_def)
  have h2: "no_orphans db_two_groups"
    by (simp add: no_orphans_def has_parent_def db_two_groups_def january_def february_def
          coffee_def)
  from export_import_round_trip[OF h1 h2, of empty_db "\<lambda>n. n" "''2024-03-01T00:00:00.000Z''"]
  obtain s' where s': "importData empty_db
        (exportData (\<lambda>n. n) ''2024-03-01T00:00:00.000Z'' db_two_groups) = (Resolved (), s')"
      "parents s' = parents db_two_groups" "entries s' = entries db_two_groups"
    by blast
  have "categories s' = []"
    using s'(1)
    by (auto simp: importData_def import_parents_def import_entries_def exportData_def
          getCategories_def clearAllData_def Let_def empty_db_def db_two_groups_def
          split: option.splits prod.splits)
  with s'(2,3) have "s' = db_two_groups" by (simp add: db_two_groups_def)
  with s'(1) h1 h2 show ?thesis by simp
qed

text \<open>
  C3 as stated fails at a store with an orphan, the store \<^verbatim>\<open>createEntry\<close> leaves when
  its group does not exist: the export lists no entry, and the import of it leaves none.
\<close>

theorem round_trip_drops_orphan:
  "wf_db db_orphan \<and> length (entries db_orphan) = 1
   \<and> snap_entries (exportData (\<lambda>n. n) ''2024-03-01T00:00:00.000Z'' db_orphan) = JArray []
   \<and> importData empty_db (exportData (\<lambda>n. n) ''2024-03-01T00:00:00.000Z'' db_orphan)
       = (Resolved (), empty_db)
   \<and> entries empty_db \<noteq> entries db_orphan"
  by (simp add: wf_db_def keys_ok_def db_orphan_def createEntry_def empty_db_def store_add_def
        updateParentTotal_def store_get_def getEntriesByParent_def exportData_def
        getAllParents_def getCategories_def importData_def import_parents_def
        import_entries_def clearAllData_def Let_def)





section \<open>Deleting a group\<close>

lemma deleteEntry_no_total:
  "deleteEntry s k False
     = (Resolved (), s\<lparr>entries := filter (\<lambda>y. e_id y \<noteq> k) (entries s)\<rparr>)"
proof (cases "store_get e_id (entries s) k")
  case None
  then have "filter (\<lambda>y. e_id y \<noteq> k) (entries s) = entries s"
    by (auto simp: store_get_None filter_id_conv)
  with None show ?thesis by (simp add: deleteEntry_def)
next
  case (Some e)
  then show ?thesis by (simp add: deleteEntry_def store_delete_def)
qed

lemma delete_each_result:
  "delete_each s es
     = (Resolved (), s\<lparr>entries := filter (\<lambda>y. e_id y \<notin> e_id ` set es) (entries s)\<rparr>)"
proof (induction es arbitrary: s)
  case Nil
  then show ?case by simp
next
  case (Cons e es)
  have "filter (\<lambda>y. e_id y \<notin> e_id ` set es) (filter (\<lambda>y. e_id y \<noteq> e_id e) (entries s))
        = filter (\<lambda>y. e_id y \<notin> e_id ` set (e # es)) (entries s)"
    by (auto intro: filter_cong)
  then show ?case by (simp add: deleteEntry_no_total Cons.IH)
qed

lemma deleteParent_result:
  "deleteParent s g =
     (Resolved (),
      s\<lparr>entries := filter (\<lambda>y. e_id y \<notin> e_id ` set (getEntriesByParent s g)) (entries s),
        parents := store_delete p_id g (parents s)\<rparr>)"
  by (simp add: deleteParent_def delete_each_result)

text \<open>With unique ids, deleting the entries of a group by their ids deletes them and no other.\<close>

lemma filter_ids_of_group:
  assumes "distinct (map e_id es)"
  shows "filter (\<lambda>y. e_id y \<notin> e_id ` {e \<in> set es. parentId e = g}) es
         = filter (\<lambda>e. parentId e \<noteq> g) es"
proof (rule filter_cong[OF refl])
  fix y assume y: "y \<in> set es"
  have "e = y" if "e \<in> set es" "e_id e = e_id y" for e
    using assms that y by (auto simp: distinct_map inj_on_def)
  then show "(e_id y \<notin> e_id ` {e \<in> set es. parentId e = g}) = (parentId y \<noteq> g)"
    using y by (auto simp: image_iff)
qed

text \<open>
  C4, as the code has it. For every store and every group id \<open>g\<close>, \<^verbatim>\<open>deleteParent(g)\<close>
  resolves; after it \<^verbatim>\<open>getEntriesByParent(g)\<close> is the empty list and
  \<^verbatim>\<open>getParent(g)\<close> finds nothing. The entries that are deleted are those with the id
  of an entry of \<open>g\<close>: with unique ids, the entries whose \<^verbatim>\<open>parentId\<close> is \<open>g\<close> and no
  other. When no group has the id \<open>g\<close> the call resolves all the same and the groups
  are as they were; the loop still deletes the entries that name \<open>g\<close>, and the store
  is as it was when there is none.
\<close>

theorem deleteParent_removes_group_and_entries:
  "fst (deleteParent s g) = Resolved ()
   \<and> getEntriesByParent (snd (deleteParent s g)) g = []
   \<and> getParent (snd (deleteParent s g)) g = None
   \<and> entries (snd (deleteParent s g))
       = filter (\<lambda>y. e_id y \<notin> e_id ` set (getEntriesByParent s g)) (entries s)
   \<and> (entry_ids_unique s \<longrightarrow>
        entries (snd (deleteParent s g)) = filter (\<lambda>e. parentId e \<noteq> g) (entries s))
   \<and> categories (snd (deleteParent s g)) = categories s
   \<and> (getParent s g = None \<longrightarrow>
        parents (snd (deleteParent s g)) = parents s
        \<and> (getEntriesByParent s g = [] \<longrightarrow> snd (deleteParent s g) = s))"
proof -
  let ?s' = "snd (deleteParent s g)"
  have 1: "fst (deleteParent s g) = Resolved ()" by (simp add: deleteParent_result)
  have "filter (\<lambda>e. parentId e = g)
          (filter (\<lambda>y. e_id y \<notin> e_id ` set (getEntriesByParent s g)) (entries s)) = []"
    by (auto simp: filter_empty_conv set_getEntriesByParent)
  then have 2: "getEntriesByParent ?s' g = []"
    by (simp add: deleteParent_result getEntriesByParent_def)
  have 3: "getParent ?s' g = None"
    by (auto simp: deleteParent_result getParent_def store_get_None store_delete_def)
  have 4: "parents ?s' = parents s" if "getParent s g = None"
    using that
    by (auto simp: deleteParent_result getParent_def store_get_None store_delete_def
          filter_id_conv)
  have 6: "entries ?s'
       = filter (\<lambda>y. e_id y \<notin> e_id ` set (getEntriesByParent s g)) (entries s)"
    by (simp add: deleteParent_result)
  have 7: "entries ?s' = filter (\<lambda>e. parentId e \<noteq> g) (entries s)" if "entry_ids_unique s"
    using that filter_ids_of_group[of "entries s" g]
    by (simp add: 6 set_getEntriesByParent entry_ids_unique_def)
  have 8: "categories ?s' = categories s" by (simp add: deleteParent_result)
  have 5: "?s' = s" if "getParent s g = None" "getEntriesByParent s g = []"
  proof -
    have "parents ?s' = parents s" using 4 that(1) by simp
    moreover have "entries ?s' = entries s" using that(2) by (simp add: deleteParent_result)
    ultimately show ?thesis using 8 by simp
  qed
  from 1 2 3 4 5 6 7 8 show ?thesis by blast
qed

text \<open>The theorem at a group id that is not stored, and at January.\<close>

theorem deleteParent_witness:
  "getParent db_two_groups ''2024-03'' = None
   \<and> getEntriesByParent db_two_groups ''2024-03'' = []
   \<and> entry_ids_unique db_two_groups
   \<and> deleteParent db_two_groups ''2024-03'' = (Resolved (), db_two_groups)
   \<and> fst (deleteParent db_two_groups ''2024-01'') = Resolved ()
   \<and> getEntriesByParent (snd (deleteParent db_two_groups ''2024-01'')) ''2024-01'' = []
   \<and> getParent (snd (deleteParent db_two_groups ''2024-01'')) ''2024-01'' = None
   \<and> entries (snd (deleteParent db_two_groups ''2024-01'')) = []"
proof -
  have h1: "getParent db_two_groups ''2024-03'' = None"
    by (simp add: getParent_def store_get_def db_two_groups_def january_def february_def)
  have h2: "getEntriesByParent db_two_groups ''2024-03'' = []"
    by (simp add: getEntriesByParent_def db_two_groups_def coffee_def)
  have h3: "entry_ids_unique db_two_groups"
    by (simp add: entry_ids_unique_def db_two_groups_def)
  have f: "filter (\<lambda>e. parentId e \<noteq> ''2024-01'') (entries db_two_groups) = []"
    by (simp add: db_two_groups_def coffee_def)
  from deleteParent_removes_group_and_entries[of db_two_groups "''2024-03''"] h1 h2
  have r1: "deleteParent db_two_groups ''2024-03'' = (Resolved (), db_two_groups)"
    by (simp add: prod_eq_iff)
  from deleteParent_removes_group_and_entries[of db_two_groups "''2024-01''"]
  have r2: "fst (deleteParent db_two_groups ''2024-01'') = Resolved ()"
      "getEntriesByParent (snd (deleteParent db_two_groups ''2024-01'')) ''2024-01'' = []"
      "getParent (snd (deleteParent db_two_groups ''2024-01'')) ''2024-01'' = None"
      "entry_ids_unique db_two_groups \<longrightarrow>
         entries (snd (deleteParent db_two_groups ''2024-01''))
           = filter (\<lambda>e. parentId e \<noteq> ''2024-01'') (entries db_two_groups)"
    by blast+
  from r2(4) h3 f have r3: "entries (snd (deleteParent db_two_groups ''2024-01'')) = []"
    by simp
  from h1 h2 h3 r1 r2(1-3) r3 show ?thesis by blast
qed

text \<open>
  C4 as stated fails at the store with an orphan: no group has the id \<^verbatim>\<open>2024-01\<close>,
  and \<^verbatim>\<open>deleteParent('2024-01')\<close> resolves and has deleted the entry of that id.
\<close>

theorem deleteParent_absent_group_deletes_orphan:
  "getParent db_orphan ''2024-01'' = None
   \<and> map e_id (entries db_orphan) = [''e1'']
   \<and> deleteParent db_orphan ''2024-01'' = (Resolved (), empty_db)
   \<and> snd (deleteParent db_orphan ''2024-01'') \<noteq> db_orphan"
  by (simp add: db_orphan_def createEntry_def empty_db_def store_add_def
        updateParentTotal_def store_get_def getParent_def deleteParent_def
        getEntriesByParent_def deleteEntry_def store_delete_def)

section \<open>Duplicating an entry\<close>

lemma duplicateEntry_resolves:
  assumes "getEntry s k = Some e" and "uuid \<notin> e_id ` set (entries s)"
    and "getParent s (parentId e) = Some p"
  shows "duplicateEntry s uuid now k
     = (Resolved (e\<lparr>e_id := uuid, e_createdAt := now\<rparr>),
        s\<lparr>entries := insort_key e_id (e\<lparr>e_id := uuid, e_createdAt := now\<rparr>) (entries s),
          parents := store_put p_id
            (p\<lparr>totalExpenses :=
                 group_total
                   (s\<lparr>entries := insort_key e_id (e\<lparr>e_id := uuid, e_createdAt := now\<rparr>)
                                    (entries s)\<rparr>)
                   (parentId e)\<rparr>)
            (parents s)\<rparr>)"
  using assms
  by (simp add: duplicateEntry_def store_add_def updateParentTotal_eq getParent_def Let_def)

lemma duplicateEntry_resolved_only_if:
  assumes "duplicateEntry s uuid now k = (Resolved d, s')"
  shows "\<exists>e p. getEntry s k = Some e \<and> uuid \<notin> e_id ` set (entries s)
           \<and> getParent s (parentId e) = Some p"
  using assms
  by (auto simp: duplicateEntry_def store_add_def updateParentTotal_eq getParent_def Let_def
        split: option.splits if_splits)

text \<open>
  C6, as the code has it. For an id that is not stored \<^verbatim>\<open>duplicateEntry\<close> rejects
  with \<^verbatim>\<open>Entry not found\<close> and the store is as it was. Whenever it resolves, it
  resolves with a copy that has the description, amount, category, date and parentId
  of the stored original, an id that no entry had before, and the clock reading as
  \<^verbatim>\<open>createdAt\<close>; the copy is stored next to the entries that were there; and the
  \<^verbatim>\<open>totalExpenses\<close> of the group is the total of its entries, the copy among them, as
  \<^verbatim>\<open>reduce\<close> adds them. It resolves when the entry and its group are stored and the
  generated id is free; when the generated id is taken it rejects with the constraint
  error and the store is as it was.
\<close>

theorem duplicateEntry_copies_entry:
  "(getEntry s k = None \<longrightarrow> duplicateEntry s uuid now k = (Rejected EntryNotFound, s))
   \<and> (\<forall>d s'. duplicateEntry s uuid now k = (Resolved d, s') \<longrightarrow>
        (\<exists>e p'. getEntry s k = Some e
           \<and> description d = description e \<and> amount d = amount e \<and> category d = category e
           \<and> date d = date e \<and> parentId d = parentId e
           \<and> e_id d = uuid \<and> e_id d \<notin> e_id ` set (entries s) \<and> e_createdAt d = now
           \<and> getEntry s' (e_id d) = Some d
           \<and> mset (entries s') = add_mset d (mset (entries s))
           \<and> getParent s' (parentId e) = Some p'
           \<and> totalExpenses p' = group_total s' (parentId e)))
   \<and> (\<forall>e p. getEntry s k = Some e \<and> getParent s (parentId e) = Some p
             \<and> uuid \<notin> e_id ` set (entries s) \<longrightarrow>
        (\<exists>d s'. duplicateEntry s uuid now k = (Resolved d, s')))
   \<and> (\<forall>e. getEntry s k = Some e \<and> uuid \<in> e_id ` set (entries s) \<longrightarrow>
        duplicateEntry s uuid now k = (Rejected ConstraintError, s))"
proof (intro conjI allI impI)
  assume "getEntry s k = None"
  then show "duplicateEntry s uuid now k = (Rejected EntryNotFound, s)"
    by (simp add: duplicateEntry_def)
next
  fix d s'
  assume r: "duplicateEntry s uuid now k = (Resolved d, s')"
  from duplicateEntry_resolved_only_if[OF r]
  obtain e p where a: "getEntry s k = Some e" "uuid \<notin> e_id ` set (entries s)"
      "getParent s (parentId e) = Some p"
    by blast
  let ?d = "e\<lparr>e_id := uuid, e_createdAt := now\<rparr>"
  let ?es = "insort_key e_id ?d (entries s)"
  let ?p' = "p\<lparr>totalExpenses := group_total (s\<lparr>entries := ?es\<rparr>) (parentId e)\<rparr>"
  let ?s' = "s\<lparr>entries := ?es, parents := store_put p_id ?p' (parents s)\<rparr>"
  from duplicateEntry_resolves[OF a, where now = now] r have d: "d = ?d" and s': "s' = ?s'"
    by simp_all
  have pid: "p_id p = parentId e"
    using a(3) store_get_Some[of p_id "parents s" "parentId e" p] by (simp add: getParent_def)
  have stored: "getEntry ?s' uuid = Some ?d"
    using a(2) store_get_insort[of e_id ?d "entries s"] by (simp add: getEntry_def)
  have parent: "getParent ?s' (parentId e) = Some ?p'"
    using store_get_put[of p_id ?p' "parents s"] pid by (simp add: getParent_def)
  have total: "totalExpenses ?p' = group_total ?s' (parentId e)"
    by (simp add: group_total_def getEntriesByParent_def)
  show "\<exists>e p'. getEntry s k = Some e
           \<and> description d = description e \<and> amount d = amount e \<and> category d = category e
           \<and> date d = date e \<and> parentId d = parentId e
           \<and> e_id d = uuid \<and> e_id d \<notin> e_id ` set (entries s) \<and> e_createdAt d = now
           \<and> getEntry s' (e_id d) = Some d
           \<and> mset (entries s') = add_mset d (mset (entries s))
           \<and> getParent s' (parentId e) = Some p'
           \<and> totalExpenses p' = group_total s' (parentId e)"
    apply (rule exI[of _ e], rule exI[of _ ?p'])
    using a stored parent total by (simp add: d s')
next
  fix e p
  assume "getEntry s k = Some e \<and> getParent s (parentId e) = Some p
             \<and> uuid \<notin> e_id ` set (entries s)"
  then show "\<exists>d s'. duplicateEntry s uuid now k = (Resolved d, s')"
    using duplicateEntry_resolves[of s k e uuid p now] by simp
next
  fix e
  assume "getEntry s k = Some e \<and> uuid \<in> e_id ` set (entries s)"
  then show "duplicateEntry s uuid now k = (Rejected ConstraintError, s)"
    by (auto simp: duplicateEntry_def store_add_def)
qed

text \<open>
  The theorem at the store with two groups: the id \<^verbatim>\<open>e9\<close> is not found, the copy of
  the coffee under the generated id \<^verbatim>\<open>e2\<close> is stored and January carries the total
  of its two entries, and the generated id \<^verbatim>\<open>e1\<close> is refused.
\<close>

theorem duplicateEntry_witness:
  "getEntry db_two_groups ''e9'' = None
   \<and> duplicateEntry db_two_groups ''e2'' 20 ''e9'' = (Rejected EntryNotFound, db_two_groups)
   \<and> getEntry db_two_groups ''e1'' = Some coffee
   \<and> getParent db_two_groups (parentId coffee) = Some january
   \<and> ''e2'' \<notin> e_id ` set (entries db_two_groups)
   \<and> ''e1'' \<in> e_id ` set (entries db_two_groups)
   \<and> duplicateEntry db_two_groups ''e1'' 20 ''e1'' = (Rejected ConstraintError, db_two_groups)
   \<and> (\<exists>d s' p'. duplicateEntry db_two_groups ''e2'' 20 ''e1'' = (Resolved d, s')
         \<and> e_id d = ''e2'' \<and> amount d = Finite 5 \<and> getEntry s' ''e2'' = Some d
         \<and> getParent s' ''2024-01'' = Some p'
         \<and> totalExpenses p' = group_total s' ''2024-01'')"
proof -
  have h0: "getEntry db_two_groups ''e9'' = None"
    by (simp add: getEntry_def store_get_def db_two_groups_def coffee_def)
  have h1: "getEntry db_two_groups ''e1'' = Some coffee"
    by (simp add: getEntry_def store_get_def db_two_groups_def coffee_def)
  have h2: "getParent db_two_groups (parentId coffee) = Some january"
    by (simp add: getParent_def store_get_def db_two_groups_def coffee_def january_def)
  have h3: "''e2'' \<notin> e_id ` set (entries db_two_groups)"
    by (simp add: db_two_groups_def coffee_def)
  have h4: "''e1'' \<in> e_id ` set (entries db_two_groups)"
    by (simp add: db_two_groups_def coffee_def)
  have v: "parentId coffee = ''2024-01''" "amount coffee = Finite 5"
    by (simp_all add: coffee_def)
  from duplicateEntry_copies_entry[of db_two_groups "''e9''" "''e2''" 20] h0
  have r0: "duplicateEntry db_two_groups ''e2'' 20 ''e9'' = (Rejected EntryNotFound, db_two_groups)"
    by simp
  from duplicateEntry_copies_entry[of db_two_groups "''e1''" "''e1''" 20] h1 h4
  have r1: "duplicateEntry db_two_groups ''e1'' 20 ''e1'' = (Rejected ConstraintError, db_two_groups)"
    by simp
  from duplicateEntry_copies_entry[of db_two_groups "''e1''" "''e2''" 20] h1 h2 h3
  obtain d s' where r: "duplicateEntry db_two_groups ''e2'' 20 ''e1'' = (Resolved d, s')"
    by blast
  with duplicateEntry_copies_entry[of db_two_groups "''e1''" "''e2''" 20] h1
  obtain p' where r': "e_id d = ''e2''" "amount d = amount coffee"
      "getEntry s' (e_id d) = Some d" "getParent s' (parentId coffee) = Some p'"
      "totalExpenses p' = group_total s' (parentId coffee)"
    by auto
  from r r' v have "\<exists>d s' p'. duplicateEntry db_two_groups ''e2'' 20 ''e1'' = (Resolved d, s')
         \<and> e_id d = ''e2'' \<and> amount d = Finite 5 \<and> getEntry s' ''e2'' = Some d
         \<and> getParent s' ''2024-01'' = Some p'
         \<and> totalExpenses p' = group_total s' ''2024-01''"
    by auto
  with h0 h1 h2 h3 h4 r0 r1 show ?thesis by blast
qed

text \<open>
  C6 as stated fails in two ways. At a store read from a backup file whose group
  carries the total 0 next to an entry of 5, the copy resolves and the total goes from
  0 to 10. And at the January of three entries of 0.1, 0.2 and 0.3, whose total
  0.6000000000000001 is the total of its entries, the copy of the entry of 0.1
  resolves and the total becomes 0.7: that is not the total before plus 0.1, neither
  as the sum of the two doubles, which is 0.7000000000000001, nor as their exact sum.
\<close>

theorem duplicate_total_not_previous_plus_amount:
  "map_option amount (getEntry db_imported ''e1'') = Some (Finite 5)
   \<and> map_option totalExpenses (getParent db_imported ''2024-01'') = Some (Finite 0)
   \<and> fst (duplicateEntry db_imported ''e2'' 20 ''e1'')
       = Resolved (coffee\<lparr>e_id := ''e2'', e_createdAt := 20\<rparr>)
   \<and> map_option totalExpenses
        (getParent (snd (duplicateEntry db_imported ''e2'' 20 ''e1'')) ''2024-01'')
       = Some (Finite 10)
   \<and> js_add (Finite 0) (Finite 5) \<noteq> Finite 10
   \<and> consistent db_three_tenths
   \<and> map_option amount (getEntry db_three_tenths ''e1'')
       = Some (Finite (3602879701896397 / 36028797018963968))
   \<and> map_option totalExpenses (getParent db_three_tenths ''2024-01'')
       = Some (Finite (1351079888211149 / 2251799813685248))
   \<and> (\<exists>d. fst (duplicateEntry db_three_tenths ''e4'' 40 ''e1'') = Resolved d)
   \<and> map_option totalExpenses
        (getParent (snd (duplicateEntry db_three_tenths ''e4'' 40 ''e1'')) ''2024-01'')
       = Some (Finite (3152519739159347 / 4503599627370496))
   \<and> js_add (Finite (1351079888211149 / 2251799813685248))
        (Finite (3602879701896397 / 36028797018963968))
       = Finite (6305039478318695 / 9007199254740992)
   \<and> (6305039478318695 / 9007199254740992 :: rat) \<noteq> 3152519739159347 / 4503599627370496
   \<and> (1351079888211149 / 2251799813685248 + 3602879701896397 / 36028797018963968 :: rat)
       \<noteq> 3152519739159347 / 4503599627370496"
proof -
  have a: "map_option amount (getEntry db_imported ''e1'') = Some (Finite 5)
     \<and> map_option totalExpenses (getParent db_imported ''2024-01'') = Some (Finite 0)
     \<and> fst (duplicateEntry db_imported ''e2'' 20 ''e1'')
         = Resolved (coffee\<lparr>e_id := ''e2'', e_createdAt := 20\<rparr>)
     \<and> map_option totalExpenses
          (getParent (snd (duplicateEntry db_imported ''e2'' 20 ''e1'')) ''2024-01'')
         = Some (Finite 10)"
    by (simp add: db_imported_def stale_snapshot_def january_def coffee_def ui_importData_def
          importData_def import_parents_def import_entries_def clearAllData_def empty_db_def
          store_add_def duplicateEntry_def getEntry_def getParent_def store_get_def
          updateParentTotal_def getEntriesByParent_def store_put_def Let_def number_eval)
  have b: "js_add (Finite 0) (Finite 5) \<noteq> Finite 10"
    by (simp add: number_eval)
  have c: "consistent db_three_tenths"
    by (simp add: db_three_tenths_value consistent_def group_total_def getEntriesByParent_def
          number_eval)
  have d: "map_option amount (getEntry db_three_tenths ''e1'')
       = Some (Finite (3602879701896397 / 36028797018963968))
     \<and> map_option totalExpenses (getParent db_three_tenths ''2024-01'')
       = Some (Finite (1351079888211149 / 2251799813685248))"
    by (simp add: db_three_tenths_value getEntry_def getParent_def store_get_def)
  have e: "(\<exists>d. fst (duplicateEntry db_three_tenths ''e4'' 40 ''e1'') = Resolved d)
     \<and> map_option totalExpenses
        (getParent (snd (duplicateEntry db_three_tenths ''e4'' 40 ''e1'')) ''2024-01'')
       = Some (Finite (3152519739159347 / 4503599627370496))"
    by (simp add: db_three_tenths_value duplicateEntry_def getEntry_def getParent_def
          store_get_def store_add_def store_put_def updateParentTotal_def
          getEntriesByParent_def Let_def number_eval)
  have f: "js_add (Finite (1351079888211149 / 2251799813685248))
        (Finite (3602879701896397 / 36028797018963968))
       = Finite (6305039478318695 / 9007199254740992)"
    by (simp add: number_eval)
  have g: "(6305039478318695 / 9007199254740992 :: rat) \<noteq> 3152519739159347 / 4503599627370496"
    "(1351079888211149 / 2251799813685248 + 3602879701896397 / 36028797018963968 :: rat)
       \<noteq> 3152519739159347 / 4503599627370496"
    by simp_all
  from a b c d e f g show ?thesis by blast
qed

section \<open>Categories\<close>

lemma set_getCategories: "set (getCategories collate s) = set (categories s)"
  by (simp add: getCategories_def)

text \<open>
  C7, as the code has it. Take two names with the same derived id, whatever the case
  tables of the platform are. On a store that holds neither that id nor the first
  name, \<^verbatim>\<open>createCategory\<close> of the first name resolves with the new category and stores
  it, and \<^verbatim>\<open>createCategory\<close> of the second name, run next, rejects with the constraint
  error of \<^verbatim>\<open>add\<close> and leaves the store as the first call left it: the categories
  that were there and the first new one. On a store that holds the id or the first
  name already, the first call is the one that rejects with the constraint error, and
  the store is as it was.
\<close>

theorem createCategory_twice:
  assumes "category_id toLowerCase n1 = category_id toLowerCase n2"
  shows "(category_id toLowerCase n1 \<notin> c_id ` set (categories s)
            \<and> n1 \<notin> c_name ` set (categories s) \<longrightarrow>
          (\<exists>c s1. createCategory toLowerCase s t1 n1 d1 = (Resolved c, s1)
             \<and> createCategory toLowerCase s1 t2 n2 d2 = (Rejected ConstraintError, s1)
             \<and> mset (categories s1) = add_mset c (mset (categories s))
             \<and> c = \<lparr>c_id = category_id toLowerCase n1, c_name = n1, isDefault = d1,
                     c_createdAt = t1\<rparr>))
       \<and> (category_id toLowerCase n1 \<in> c_id ` set (categories s)
            \<or> n1 \<in> c_name ` set (categories s) \<longrightarrow>
          createCategory toLowerCase s t1 n1 d1 = (Rejected ConstraintError, s))"
  using assms
  by (auto simp: createCategory_def category_add_def set_insort_key Let_def)

text \<open>
  The theorem at the names \<^verbatim>\<open>Pet Care\<close> and \<^verbatim>\<open>pet\<close>, no-break space, space,
  \<^verbatim>\<open>care\<close> on an empty store, and at \<^verbatim>\<open>Food\<close> on the seeded store.
\<close>

theorem createCategory_twice_witness:
  "category_id toLowerCase_ascii (units ''Pet Care'')
     = category_id toLowerCase_ascii (units ''pet'' @ [160, 32] @ units ''care'')
   \<and> category_id toLowerCase_ascii (units ''Pet Care'') \<notin> c_id ` set (categories empty_db)
   \<and> units ''Pet Care'' \<notin> c_name ` set (categories empty_db)
   \<and> (\<exists>c s1. createCategory toLowerCase_ascii empty_db 1 (units ''Pet Care'') False
                = (Resolved c, s1)
         \<and> createCategory toLowerCase_ascii s1 2 (units ''pet'' @ [160, 32] @ units ''care'') False
             = (Rejected ConstraintError, s1)
         \<and> mset (categories s1) = add_mset c (mset (categories empty_db))
         \<and> c_id c = units ''pet-care'')
   \<and> units ''Food'' \<in> c_name ` set (categories db_seeded)
   \<and> createCategory toLowerCase_ascii db_seeded 1 (units ''Food'') False
       = (Rejected ConstraintError, db_seeded)"
proof -
  have i1: "category_id toLowerCase_ascii (units ''Pet Care'') = units ''pet-care''"
    by (simp add: category_id_def toLowerCase_ascii_def units_def is_space_def)
  have i2: "category_id toLowerCase_ascii (units ''pet'' @ [160, 32] @ units ''care'')
        = units ''pet-care''"
    by (simp add: category_id_def toLowerCase_ascii_def units_def is_space_def)
  have h1: "category_id toLowerCase_ascii (units ''Pet Care'')
     = category_id toLowerCase_ascii (units ''pet'' @ [160, 32] @ units ''care'')"
    by (simp only: i1 i2)
  have h2: "category_id toLowerCase_ascii (units ''Pet Care'') \<notin> c_id ` set (categories empty_db)"
    by (simp add: empty_db_def)
  have h3: "units ''Pet Care'' \<notin> c_name ` set (categories empty_db)"
    by (simp add: empty_db_def)
  have h4: "units ''Food'' \<in> c_name ` set (categories db_seeded)"
    by (simp add: db_seeded_def seedDefaultCategories_def defaultCategories_def
          createCategory_def category_add_def category_id_def toLowerCase_ascii_def
          units_def is_space_def empty_db_def Let_def)
  from createCategory_twice[OF h1, of empty_db 1 False 2 False] h2 h3
  obtain c s1 where r: "createCategory toLowerCase_ascii empty_db 1 (units ''Pet Care'') False
                = (Resolved c, s1)"
      "createCategory toLowerCase_ascii s1 2 (units ''pet'' @ [160, 32] @ units ''care'') False
             = (Rejected ConstraintError, s1)"
      "mset (categories s1) = add_mset c (mset (categories empty_db))"
      "c = \<lparr>c_id = category_id toLowerCase_ascii (units ''Pet Care''),
            c_name = units ''Pet Care'', isDefault = False, c_createdAt = 1\<rparr>"
    by blast
  from r(4) i1 have "c_id c = units ''pet-care''" by simp
  with r have e: "\<exists>c s1. createCategory toLowerCase_ascii empty_db 1 (units ''Pet Care'') False
                = (Resolved c, s1)
         \<and> createCategory toLowerCase_ascii s1 2 (units ''pet'' @ [160, 32] @ units ''care'') False
             = (Rejected ConstraintError, s1)
         \<and> mset (categories s1) = add_mset c (mset (categories empty_db))
         \<and> c_id c = units ''pet-care''"
    by blast
  from createCategory_twice[OF refl, of toLowerCase_ascii "units ''Food''" db_seeded 1 False] h4
  have f: "createCategory toLowerCase_ascii db_seeded 1 (units ''Food'') False
       = (Rejected ConstraintError, db_seeded)"
    by simp
  from h1 h2 h3 h4 e f show ?thesis by blast
qed

text \<open>
  C7 as stated fails for the pair \<^verbatim>\<open>Food\<close>, \<^verbatim>\<open>food\<close> on the seeded store: the two
  names have the same derived id, and the first call is rejected.
\<close>

theorem createCategory_first_call_rejected:
  "category_id toLowerCase_ascii (units ''Food'') = category_id toLowerCase_ascii (units ''food'')
   \<and> createCategory toLowerCase_ascii db_seeded 1 (units ''Food'') False
       = (Rejected ConstraintError, db_seeded)"
  by (simp add: db_seeded_def seedDefaultCategories_def defaultCategories_def
        createCategory_def category_add_def category_id_def toLowerCase_ascii_def
        units_def is_space_def empty_db_def Let_def)

text \<open>
  C8, as the code has it. \<^verbatim>\<open>deleteCategory(id)\<close> rejects with
  \<^verbatim>\<open>Cannot delete default category\<close> exactly when the stored category is a default
  or no category is stored under the id, and then the store is as it was. In every
  other case it resolves, and no category of the list \<^verbatim>\<open>getCategories()\<close> returns
  afterwards has the id.
\<close>

theorem deleteCategory_cases:
  "(fst (deleteCategory s k) = Rejected CannotDeleteDefault \<longleftrightarrow>
      (case store_get c_id (categories s) k of None \<Rightarrow> True | Some c \<Rightarrow> isDefault c))
   \<and> (fst (deleteCategory s k) = Rejected CannotDeleteDefault \<longrightarrow> snd (deleteCategory s k) = s)
   \<and> (fst (deleteCategory s k) \<noteq> Rejected CannotDeleteDefault \<longrightarrow>
        fst (deleteCategory s k) = Resolved ()
        \<and> k \<notin> c_id ` set (getCategories collate (snd (deleteCategory s k))))"
  by (auto simp: deleteCategory_def set_getCategories store_delete_def split: option.splits)

text \<open>
  The theorem at the seeded store with one category added by the user: the default
  \<^verbatim>\<open>food\<close> is refused, the added \<^verbatim>\<open>travel\<close> is deleted.
\<close>

theorem deleteCategory_witness:
  "deleteCategory (snd (createCategory toLowerCase_ascii db_seeded 1 (units ''Travel'') False))
       (units ''food'')
     = (Rejected CannotDeleteDefault,
        snd (createCategory toLowerCase_ascii db_seeded 1 (units ''Travel'') False))
   \<and> fst (deleteCategory
            (snd (createCategory toLowerCase_ascii db_seeded 1 (units ''Travel'') False))
            (units ''travel''))
       = Resolved ()
   \<and> units ''travel'' \<notin> c_id ` set (getCategories (\<lambda>n. n)
         (snd (deleteCategory
                 (snd (createCategory toLowerCase_ascii db_seeded 1 (units ''Travel'') False))
                 (units ''travel''))))"
proof -
  let ?s = "snd (createCategory toLowerCase_ascii db_seeded 1 (units ''Travel'') False)"
  have cs: "map (\<lambda>c. (c_id c, isDefault c)) (categories ?s)
      = [(units ''bills-&-utilities'', True), (units ''education'', True),
         (units ''entertainment'', True), (units ''food'', True), (units ''groceries'', True),
         (units ''health-&-medical'', True), (units ''others'', True),
         (units ''shopping'', True), (units ''transport'', True), (units ''travel'', False)]"
    by (simp add: db_seeded_def seedDefaultCategories_def defaultCategories_def
          createCategory_def category_add_def category_id_def toLowerCase_ascii_def
          units_def is_space_def empty_db_def Let_def)
  have find: "map_option isDefault (store_get c_id cs k)
      = map_of (map (\<lambda>c. (c_id c, isDefault c)) cs) k" for cs :: "category_rec list" and k
    by (induction cs) (auto simp: store_get_def)
  have f: "map_option isDefault (store_get c_id (categories ?s) (units ''food'')) = Some True"
    unfolding find cs by (simp add: units_def)
  have t: "map_option isDefault (store_get c_id (categories ?s) (units ''travel'')) = Some False"
    unfolding find cs by (simp add: units_def)
  from f have r1: "fst (deleteCategory ?s (units ''food'')) = Rejected CannotDeleteDefault"
    using deleteCategory_cases[of ?s "units ''food''" "\<lambda>n. n"] by (auto split: option.splits)
  from t have r2: "fst (deleteCategory ?s (units ''travel'')) \<noteq> Rejected CannotDeleteDefault"
    using deleteCategory_cases[of ?s "units ''travel''" "\<lambda>n. n"] by (auto split: option.splits)
  from r1 deleteCategory_cases[of ?s "units ''food''" "\<lambda>n. n"]
  have "deleteCategory ?s (units ''food'') = (Rejected CannotDeleteDefault, ?s)"
    by (simp add: prod_eq_iff)
  with r2 deleteCategory_cases[of ?s "units ''travel''" "\<lambda>n. n"] show ?thesis by simp
qed

text \<open>
  C8 as stated fails at an id under which nothing is stored: no stored category is a
  default, and the call rejects with \<^verbatim>\<open>Cannot delete default category\<close> all the same.
\<close>

theorem deleteCategory_absent_id:
  "store_get c_id (categories empty_db) (units ''travel'') = None
   \<and> deleteCategory empty_db (units ''travel'') = (Rejected CannotDeleteDefault, empty_db)"
  by (simp add: deleteCategory_def empty_db_def store_get_def)

section \<open>An entry for a group that is not stored\<close>

text \<open>
  C9. \<^verbatim>\<open>createEntry('2024-03', 'Coffee', 4.5, 'Food')\<close> on the empty store: the entry
  is stored, and \<^verbatim>\<open>getEntriesByParent('2024-03')\<close> returns it, but the promise of
  \<^verbatim>\<open>createEntry\<close> is neither resolved nor rejected. The rejection of
  \<^verbatim>\<open>updateParentTotal\<close> ends the success callback and reaches no caller.
\<close>

theorem createEntry_unknown_parent_never_settles:
  "createEntry empty_db ''e1'' 7 8 ''2024-03'' ''Coffee'' (Finite (9/2)) ''Food'' None
     = (Pending,
        \<lparr>parents = [],
         entries = [\<lparr>e_id = ''e1'', parentId = ''2024-03'', description = ''Coffee'',
                     amount = Finite (9/2), category = ''Food'', date = 7, e_createdAt = 8\<rparr>],
         categories = []\<rparr>)
   \<and> updateParentTotal
        (snd (createEntry empty_db ''e1'' 7 8 ''2024-03'' ''Coffee'' (Finite (9/2)) ''Food'' None))
        ''2024-03''
       = (Rejected ParentNotFound,
          snd (createEntry empty_db ''e1'' 7 8 ''2024-03'' ''Coffee'' (Finite (9/2)) ''Food'' None))
   \<and> getEntriesByParent
        (snd (createEntry empty_db ''e1'' 7 8 ''2024-03'' ''Coffee'' (Finite (9/2)) ''Food'' None))
        ''2024-03''
       = [\<lparr>e_id = ''e1'', parentId = ''2024-03'', description = ''Coffee'',
           amount = Finite (9/2), category = ''Food'', date = 7, e_createdAt = 8\<rparr>]"
  by (simp add: createEntry_def empty_db_def store_add_def updateParentTotal_def
        store_get_def getEntriesByParent_def)

section \<open>A request that is in no cache and fails on the network\<close>

text \<open>
  C5. When the request is not in the cache and \<^verbatim>\<open>fetch\<close> rejects, the request of
  the page fails: what \<^verbatim>\<open>respondWith\<close> passes to the page is the rejection with a
  \<^verbatim>\<open>TypeError\<close> of a network error, and no response is served in place of the
  missing one. On the way the \<^verbatim>\<open>catch\<close> of the handler takes the rejection of
  \<^verbatim>\<open>fetch\<close> and writes one line to the console; its promise is fulfilled with
  \<^verbatim>\<open>undefined\<close>, which is no response, and the cache is as it was.
\<close>

theorem fetch_failure_reaches_page:
  "cache request = None \<Longrightarrow>
   respondWith (fst (fetch_handler cache request (Rejected err))) = Rejected TypeError
   \<and> (\<forall>r. respondWith (fst (fetch_handler cache request (Rejected err))) \<noteq> Resolved r)
   \<and> fetch_handler cache request (Rejected err)
       = (Resolved None, cache, [''Fetch failed; returning offline page instead.''])"
  by (simp add: fetch_handler_def)

text \<open>The theorem at an empty cache.\<close>

theorem fetch_failure_witness:
  "(Map.empty :: string \<rightharpoonup> response) ''/api/rates'' = None
   \<and> respondWith (fst (fetch_handler Map.empty ''/api/rates'' (Rejected TypeError)))
       = Rejected TypeError
   \<and> fetch_handler Map.empty ''/api/rates'' (Rejected TypeError)
       = (Resolved None, Map.empty, [''Fetch failed; returning offline page instead.''])"
proof -
  have h: "(Map.empty :: string \<rightharpoonup> response) ''/api/rates'' = None" by simp
  from fetch_failure_reaches_page[OF h, where err = TypeError] h show ?thesis by simp
qed

end
